theory Spec2Isabelle
  imports Main "HOL-Library.Product_Lexorder"
begin

section \<open>Data model of tyme.py\<close>

text \<open>
  A shallow embedding of \<^verbatim>\<open>src/tyme/tyme.py\<close>. Exceptions are values of type
  \<open>error\<close>; every method of \<^verbatim>\<open>TymeSheet\<close> takes the sheet and returns the outcome
  together with the sheet as the call leaves it, so that what a raising call has
  mutated stays visible. The file system (the save in \<^verbatim>\<open>TymeSheet.__init__\<close>) is
  not part of the model.
\<close>

datatype error =
    TymeError string
  | ParseError string
  | KeyError
  | StopIteration
  | RuntimeError
  | ValueError

text \<open>A naive \<^verbatim>\<open>datetime\<close>; Python compares them field by field, in this order.\<close>

record datetime =
  year :: nat
  month :: nat
  day :: nat
  hour :: nat
  minute :: nat
  second :: nat
  microsecond :: nat

definition dt_tuple :: "datetime \<Rightarrow> nat \<times> nat \<times> nat \<times> nat \<times> nat \<times> nat \<times> nat" where
  "dt_tuple d = (year d, month d, day d, hour d, minute d, second d, microsecond d)"

definition dt_less :: "datetime \<Rightarrow> datetime \<Rightarrow> bool" where
  "dt_less a b = (dt_tuple a < dt_tuple b)"

text \<open>
  \<^verbatim>\<open>datetime.now()\<close> is read from a clock: \<open>clk n\<close> is what the \<open>n\<close>-th call of the
  run returns, and the number of calls made so far is threaded through the operations.
  \<^verbatim>\<open>now()\<close> replaces the year by 2000.
\<close>

type_synonym clock = "nat \<Rightarrow> datetime"

definition now :: "clock \<Rightarrow> nat \<Rightarrow> datetime \<times> nat" where
  "now clk n = ((clk n)\<lparr>year := 2000\<rparr>, Suc n)"

text \<open>\<^verbatim>\<open>time or now()\<close>: a datetime is always truthy, so only \<^verbatim>\<open>None\<close> reads the clock.\<close>

definition or_now :: "clock \<Rightarrow> datetime option \<Rightarrow> nat \<Rightarrow> datetime \<times> nat" where
  "or_now clk t n = (case t of Some x \<Rightarrow> (x, n) | None \<Rightarrow> now clk n)"

record Task =
  name :: string
  tags :: "string list"
  deadline :: "datetime option"

record Entry =
  task :: string
  start :: datetime
  end_dt :: "datetime option"

text \<open>\<^verbatim>\<open>Entry.__init__\<close>\<close>

definition Entry_init :: "string \<Rightarrow> datetime \<Rightarrow> datetime option \<Rightarrow> error + Entry" where
  "Entry_init tk st en =
     (if en \<noteq> None \<and> dt_less (the en) st
      then Inl (TymeError ''Entry cannot end before it begins!'')
      else Inr \<lparr>task = tk, start = st, end_dt = en\<rparr>)"

subsection \<open>OrderedDict\<close>

text \<open>
  An \<^verbatim>\<open>OrderedDict\<close> is the list of its items in insertion order. Assigning to a key
  that is present replaces the value where it stands; a new key goes to the end.
\<close>

type_synonym ('k, 'v) odict = "('k \<times> 'v) list"

fun od_set :: "'k \<Rightarrow> 'v \<Rightarrow> ('k, 'v) odict \<Rightarrow> ('k, 'v) odict" where
  "od_set k v [] = [(k, v)]"
| "od_set k v ((k', v') # d) = (if k' = k then (k', v) # d else (k', v') # od_set k v d)"

definition od_mem :: "'k \<Rightarrow> ('k, 'v) odict \<Rightarrow> bool" where
  "od_mem k d = (map_of d k \<noteq> None)"


definition od_pop :: "'k \<Rightarrow> ('k, 'v) odict \<Rightarrow> error + ('v \<times> ('k, 'v) odict)" where
  "od_pop k d =
     (case map_of d k of
        None \<Rightarrow> Inl KeyError
      | Some v \<Rightarrow> Inr (v, filter (\<lambda>kv. fst kv \<noteq> k) d))"

subsection \<open>TymeSheet\<close>

record TymeSheet =
  todo :: "(string, Task) odict"
  time :: "Entry list"
  done_od :: "(string, Task) odict"


text \<open>The property \<^verbatim>\<open>current_entry\<close>: the last entry when its end is \<^verbatim>\<open>None\<close>.\<close>

definition current_entry :: "TymeSheet \<Rightarrow> Entry option" where
  "current_entry s =
     (if time s \<noteq> [] \<and> end_dt (last (time s)) = None then Some (last (time s)) else None)"

text \<open>
  The state of a run: the sheet and the number of clock readings made. An operation
  returns what it raises or returns, and the state it leaves.
\<close>

type_synonym state = "TymeSheet \<times> nat"

definition add_task ::
  "string \<Rightarrow> string list \<Rightarrow> datetime option \<Rightarrow> TymeSheet \<Rightarrow> (error + unit) \<times> TymeSheet" where
  "add_task nm tgs dl s =
     (if od_mem nm (todo s) then (Inl (TymeError ''That task already exists.''), s)
      else (Inr (), s\<lparr>todo := od_set nm \<lparr>name = nm, tags = tgs, deadline = dl\<rparr> (todo s)\<rparr>))"

text \<open>
  \<^verbatim>\<open>clock_out\<close> writes the attribute \<^verbatim>\<open>end\<close> of the current entry, which is the last
  element of \<^verbatim>\<open>self.time\<close>; it returns the entry's task name.
\<close>

definition clock_out ::
  "clock \<Rightarrow> datetime option \<Rightarrow> state \<Rightarrow> (error + string) \<times> state" where
  "clock_out clk t st =
     (case st of (s, n) \<Rightarrow>
        (case current_entry s of
           None \<Rightarrow> (Inl (TymeError ''Not clocked in.''), (s, n))
         | Some cur \<Rightarrow>
             (case or_now clk t n of (t', n') \<Rightarrow>
                (Inr (task cur),
                 (s\<lparr>time := butlast (time s) @ [cur\<lparr>end_dt := Some t'\<rparr>]\<rparr>, n')))))"

definition clock_in ::
  "clock \<Rightarrow> string \<Rightarrow> datetime option \<Rightarrow> state \<Rightarrow> (error + unit) \<times> state" where
  "clock_in clk tk t st =
     (case st of (s, n) \<Rightarrow>
        (case or_now clk t n of (t', n1) \<Rightarrow>
           (case (if current_entry s \<noteq> None then clock_out clk (Some t') (s, n1)
                  else (Inr [], (s, n1))) of
              (Inl e, st2) \<Rightarrow> (Inl e, st2)
            | (Inr _, (s2, n2)) \<Rightarrow>
                (case Entry_init tk t' None of
                   Inl e \<Rightarrow> (Inl e, (s2, n2))
                 | Inr entry \<Rightarrow> (Inr (), (s2\<lparr>time := time s2 @ [entry]\<rparr>, n2))))))"

definition complete_task ::
  "clock \<Rightarrow> string \<Rightarrow> datetime option \<Rightarrow> state \<Rightarrow> (error + unit) \<times> state" where
  "complete_task clk task_name t st =
     (case st of (s, n) \<Rightarrow>
        (case od_pop task_name (todo s) of
           Inl _ \<Rightarrow> (Inl (TymeError ''No such task.''), (s, n))
         | Inr (tsk, todo') \<Rightarrow>
             (case or_now clk t n of (t', n1) \<Rightarrow>
                (let s1 = s\<lparr>todo := todo',
                            done_od := od_set task_name (tsk\<lparr>deadline := Some t'\<rparr>) (done_od s)\<rparr>
                 in (case current_entry s1 of
                       Some cur \<Rightarrow>
                         (if task cur = task_name
                          then (case clock_out clk (Some t') (s1, n1) of
                                  (Inl e, st2) \<Rightarrow> (Inl e, st2)
                                | (Inr _, st2) \<Rightarrow> (Inr (), st2))
                          else (Inr (), (s1, n1)))
                     | None \<Rightarrow> (Inr (), (s1, n1)))))))"



text \<open>\<^verbatim>\<open>_validate\<close>: every entry but the last must have an end.\<close>

fun validate_entries :: "Entry list \<Rightarrow> error + unit" where
  "validate_entries [] = Inr ()"
| "validate_entries (t # ts) =
     (if end_dt t \<noteq> None then validate_entries ts
      else Inl (ParseError ''Unfinished nonfinal entry''))"

definition validate :: "TymeSheet \<Rightarrow> error + unit" where
  "validate s = validate_entries (butlast (time s))"

text \<open>The invariant of an entry, and of a time log.\<close>

definition entry_ok :: "Entry \<Rightarrow> bool" where
  "entry_ok e = (case end_dt e of None \<Rightarrow> True | Some en \<Rightarrow> \<not> dt_less en (start e))"

definition ends_ok :: "TymeSheet \<Rightarrow> bool" where
  "ends_ok s = list_all entry_ok (time s)"

section \<open>Strings\<close>

text \<open>
  A string is the list of its code points; the model covers the code points below 256.
  The three character classes are those of Python's \<^verbatim>\<open>re\<close> on \<^verbatim>\<open>str\<close> patterns
  (\<^verbatim>\<open>\d\<close>, \<^verbatim>\<open>\s\<close>, \<^verbatim>\<open>\w\<close>) in that range; \<^verbatim>\<open>str.strip\<close> uses the same whitespace.
\<close>

definition code_point :: "char \<Rightarrow> nat" where
  "code_point c = of_char c"

definition is_digit :: "char \<Rightarrow> bool" where
  "is_digit c = (48 \<le> code_point c \<and> code_point c \<le> 57)"

definition is_space :: "char \<Rightarrow> bool" where
  "is_space c = (let n = code_point c in
     (9 \<le> n \<and> n \<le> 13) \<or> (28 \<le> n \<and> n \<le> 32) \<or> n = 133 \<or> n = 160)"

definition is_word :: "char \<Rightarrow> bool" where
  "is_word c = (let n = code_point c in
     (48 \<le> n \<and> n \<le> 57) \<or> (65 \<le> n \<and> n \<le> 90) \<or> n = 95 \<or> (97 \<le> n \<and> n \<le> 122)
     \<or> n = 170 \<or> n = 178 \<or> n = 179 \<or> n = 181 \<or> n = 185 \<or> n = 186
     \<or> (188 \<le> n \<and> n \<le> 190) \<or> (192 \<le> n \<and> n \<le> 214) \<or> (216 \<le> n \<and> n \<le> 246)
     \<or> (248 \<le> n \<and> n \<le> 255))"







text \<open>Decimal numerals.\<close>

definition digit_char :: "nat \<Rightarrow> char" where
  "digit_char d = char_of (48 + d)"

fun dec :: "nat \<Rightarrow> string" where
  "dec n = (if n < 10 then [digit_char n] else dec (n div 10) @ [digit_char (n mod 10)])"

declare dec.simps [simp del]

definition pad2 :: "nat \<Rightarrow> string" where
  "pad2 n = (if n < 10 then CHR ''0'' # dec n else dec n)"



section \<open>Regular expressions\<close>

text \<open>
  The patterns of the program, matched as Python's \<^verbatim>\<open>re\<close> matches them: by
  backtracking, every quantifier greedy, the alternatives in their order. \<open>ms r x\<close>
  lists every way \<open>r\<close> matches at the front of the text of \<open>x\<close>, in the order in which
  backtracking tries them, as the rest of the text and the groups captured;
  \<^verbatim>\<open>re.match\<close> returns the first.
\<close>

datatype cls = Lit char | Digit | Word | Space | Range char char | AnyOf "cls list"

fun cls_match :: "cls \<Rightarrow> char \<Rightarrow> bool" where
  "cls_match (Lit a) c = (c = a)"
| "cls_match Digit c = is_digit c"
| "cls_match Word c = is_word c"
| "cls_match Space c = is_space c"
| "cls_match (Range a b) c = (code_point a \<le> code_point c \<and> code_point c \<le> code_point b)"
| "cls_match (AnyOf cs) c = (\<exists>x \<in> set cs. cls_match x c)"
















section \<open>Time utilities\<close>

















section \<open>Records and lines\<close>








section \<open>The document\<close>












section \<open>Notions for the proofs\<close>








text \<open>A string without line end in it.\<close>

definition one_line :: "string \<Rightarrow> bool" where
  "one_line l = (CHR 0x0A \<notin> set l \<and> CHR 0x0D \<notin> set l)"

section \<open>Example sheets\<close>

definition dt :: "nat \<Rightarrow> nat \<Rightarrow> nat \<Rightarrow> nat \<Rightarrow> datetime" where
  "dt mo d h mi = \<lparr>year = 2000, month = mo, day = d, hour = h, minute = mi, second = 0, microsecond = 0\<rparr>"

definition sheet_done_only :: TymeSheet where
  "sheet_done_only =
     \<lparr>todo = [], time = [],
      done_od = [(''write'', \<lparr>name = ''write'', tags = [], deadline = Some (dt 10 10 7 15)\<rparr>)]\<rparr>"

definition sheet_todo_only :: TymeSheet where
  "sheet_todo_only =
     \<lparr>todo = [(''write'', \<lparr>name = ''write'', tags = [], deadline = None\<rparr>)], time = [],
      done_od = []\<rparr>"

definition sheet_open :: TymeSheet where
  "sheet_open = \<lparr>todo = [], time = [\<lparr>task = ''foo'', start = dt 10 10 10 0, end_dt = None\<rparr>], done_od = []\<rparr>"

definition sheet_working :: TymeSheet where
  "sheet_working =
     \<lparr>todo = [(''write'', \<lparr>name = ''write'', tags = [''work''], deadline = None\<rparr>),
              (''read'', \<lparr>name = ''read'', tags = [], deadline = None\<rparr>)],
      time = [\<lparr>task = ''read'', start = dt 10 10 8 0, end_dt = Some (dt 10 10 9 0)\<rparr>,
              \<lparr>task = ''write'', start = dt 10 10 9 0, end_dt = None\<rparr>],
      done_od = []\<rparr>"







section \<open>Properties\<close>

lemma dt_less_irrefl: "\<not> dt_less a a"
  by (simp add: dt_less_def)

lemma dt_less_asym: "dt_less a b \<Longrightarrow> \<not> dt_less b a"
  by (auto simp: dt_less_def)

text \<open>
  C9. Constructing an Entry whose end is not \<^verbatim>\<open>None\<close> and is strictly earlier than
  its start raises TymeError; with an end that is not earlier than the start (in
  particular equal to it, or later), or with no end, the construction succeeds and
  stores the three arguments.
\<close>

theorem Entry_init_guard:
  "(dt_less e st \<longrightarrow> Entry_init tk st (Some e) = Inl (TymeError ''Entry cannot end before it begins!''))
   \<and> (\<not> dt_less e st \<longrightarrow> Entry_init tk st (Some e) = Inr \<lparr>task = tk, start = st, end_dt = Some e\<rparr>)
   \<and> Entry_init tk st (Some st) = Inr \<lparr>task = tk, start = st, end_dt = Some st\<rparr>
   \<and> (dt_less st e \<longrightarrow> Entry_init tk st (Some e) = Inr \<lparr>task = tk, start = st, end_dt = Some e\<rparr>)
   \<and> Entry_init tk st None = Inr \<lparr>task = tk, start = st, end_dt = None\<rparr>"
  by (auto simp: Entry_init_def dt_less_irrefl dest: dt_less_asym)

text \<open>
  Witness for C9: an entry from 08:00 to 07:15 is refused, one from 07:15 to 08:00 is
  built.
\<close>

theorem Entry_init_guard_witness:
  "dt_less (dt 10 10 7 15) (dt 10 10 8 0)
   \<and> Entry_init ''foo'' (dt 10 10 8 0) (Some (dt 10 10 7 15)) = Inl (TymeError ''Entry cannot end before it begins!'')
   \<and> Entry_init ''foo'' (dt 10 10 7 15) (Some (dt 10 10 8 0)) = Inr \<lparr>task = ''foo'', start = dt 10 10 7 15, end_dt = Some (dt 10 10 8 0)\<rparr>"
  using Entry_init_guard [of "dt 10 10 7 15" "dt 10 10 8 0" "''foo''"]
        Entry_init_guard [of "dt 10 10 8 0" "dt 10 10 7 15" "''foo''"]
  by (simp add: dt_less_def dt_tuple_def dt_def)

lemma od_set_new: "\<not> od_mem k d \<Longrightarrow> od_set k v d = d @ [(k, v)]"
  by (induction d) (auto simp: od_mem_def)




text \<open>
  C2, as the code has it. \<^verbatim>\<open>add_task(name, tags)\<close> raises TymeError ("That task already
  exists.") exactly when the name is a key of \<^verbatim>\<open>todo\<close>, and leaves the sheet as it was;
  for every name that is not a key of \<^verbatim>\<open>todo\<close>, whether or not it is a key of \<^verbatim>\<open>done\<close>,
  it appends a pending task with the given tags and no deadline at the end of
  \<^verbatim>\<open>todo\<close>.
\<close>

theorem add_task_todo_only:
  "(od_mem nm (todo s) \<longrightarrow>
      add_task nm tgs None s = (Inl (TymeError ''That task already exists.''), s))
   \<and> (\<not> od_mem nm (todo s) \<longrightarrow>
      add_task nm tgs None s =
        (Inr (), s\<lparr>todo := todo s @ [(nm, \<lparr>name = nm, tags = tgs, deadline = None\<rparr>)]\<rparr>))"
  by (simp add: add_task_def od_set_new)

text \<open>
  Counterexample to C2 as stated: the name \<open>write\<close> is a key of \<^verbatim>\<open>done\<close> only, and
  \<^verbatim>\<open>add_task\<close> does not raise: it adds a pending task of that name.
\<close>

theorem add_task_done_counterexample:
  "od_mem ''write'' (done_od sheet_done_only)
   \<and> add_task ''write'' [''work''] None sheet_done_only =
       (Inr (), sheet_done_only\<lparr>todo := [(''write'', \<lparr>name = ''write'', tags = [''work''], deadline = None\<rparr>)]\<rparr>)"
  by (simp add: add_task_def od_mem_def sheet_done_only_def)

text \<open>
  Witness for the amended C2: a name in \<^verbatim>\<open>todo\<close> is refused, a new name is appended.
\<close>

theorem add_task_todo_only_witness:
  "od_mem ''write'' (todo sheet_todo_only)
   \<and> add_task ''write'' [''work''] None sheet_todo_only = (Inl (TymeError ''That task already exists.''), sheet_todo_only)
   \<and> \<not> od_mem ''read'' (todo sheet_todo_only)
   \<and> add_task ''read'' [''work''] None sheet_todo_only =
        (Inr (), sheet_todo_only\<lparr>todo := todo sheet_todo_only @ [(''read'', \<lparr>name = ''read'', tags = [''work''], deadline = None\<rparr>)]\<rparr>)"
  using add_task_todo_only [of "''write''" sheet_todo_only "[''work'']"]
        add_task_todo_only [of "''read''" sheet_todo_only "[''work'']"]
  by (simp add: od_mem_def sheet_todo_only_def)

lemma current_entry_Some:
  "current_entry s = Some cur \<Longrightarrow> time s \<noteq> [] \<and> cur = last (time s) \<and> end_dt cur = None"
  by (auto simp: current_entry_def split: if_splits)

text \<open>
  C4. On a sheet with an open entry, \<^verbatim>\<open>clock_in(name, t)\<close> sets the end of the open entry
  to \<open>t\<close> and appends an open entry for \<open>name\<close> that starts at \<open>t\<close>: the end of
  the closed entry is the start of the new one. When the time is omitted the clock is
  read once, and that one reading is both the end and the start.
\<close>

theorem clock_in_closes_open_entry:
  "current_entry s = Some cur \<Longrightarrow>
     clock_in clk nm (Some t) (s, n) =
       (Inr (), (s\<lparr>time := butlast (time s) @
                   [cur\<lparr>end_dt := Some t\<rparr>, \<lparr>task = nm, start = t, end_dt = None\<rparr>]\<rparr>, n))
     \<and> clock_in clk nm None (s, n) =
       (Inr (), (s\<lparr>time := butlast (time s) @
                   [cur\<lparr>end_dt := Some ((clk n)\<lparr>year := 2000\<rparr>)\<rparr>,
                    \<lparr>task = nm, start = (clk n)\<lparr>year := 2000\<rparr>, end_dt = None\<rparr>]\<rparr>, Suc n))"
  by (simp add: clock_in_def clock_out_def or_now_def now_def Entry_init_def)

text \<open>
  Witness for C4: clocked in on \<open>foo\<close> since 10:00, clocking in on \<open>bar\<close> at 11:30.
\<close>

theorem clock_in_closes_open_entry_witness:
  "current_entry sheet_open = Some \<lparr>task = ''foo'', start = dt 10 10 10 0, end_dt = None\<rparr>
   \<and> clock_in (\<lambda>_. dt 1 1 0 0) ''bar'' (Some (dt 10 10 11 30)) (sheet_open, 0) =
       (Inr (), (sheet_open\<lparr>time :=
                   [\<lparr>task = ''foo'', start = dt 10 10 10 0, end_dt = Some (dt 10 10 11 30)\<rparr>,
                    \<lparr>task = ''bar'', start = dt 10 10 11 30, end_dt = None\<rparr>]\<rparr>, 0))"
  using clock_in_closes_open_entry [of sheet_open "\<lparr>task = ''foo'', start = dt 10 10 10 0, end_dt = None\<rparr>"
      "\<lambda>_. dt 1 1 0 0" "''bar''" "dt 10 10 11 30" 0]
  by (simp add: current_entry_def sheet_open_def)

lemma clock_in_eq:
  "clock_in clk nm t (s, n) =
     (Inr (), (s\<lparr>time := (case current_entry s of None \<Rightarrow> time s
                           | Some cur \<Rightarrow> butlast (time s) @ [cur\<lparr>end_dt := Some (fst (or_now clk t n))\<rparr>])
                          @ [\<lparr>task = nm, start = fst (or_now clk t n), end_dt = None\<rparr>]\<rparr>,
               snd (or_now clk t n)))"
  by (cases "current_entry s"; cases "or_now clk t n")
     (simp_all add: clock_in_def clock_out_def Entry_init_def or_now_def)

text \<open>
  C10. \<^verbatim>\<open>clock_in\<close> returns normally for every task name, every time, every sheet: the
  name is looked up nowhere, and the time log afterwards is one entry longer and ends
  with an open entry that carries the name.
\<close>

theorem clock_in_never_raises:
  "\<exists>tm. clock_in clk nm t (s, n) =
      (Inr (), (s\<lparr>time := tm @ [\<lparr>task = nm, start = fst (or_now clk t n), end_dt = None\<rparr>]\<rparr>,
                snd (or_now clk t n)))
     \<and> length tm = length (time s)"
proof (cases "current_entry s")
  case None
  then show ?thesis by (intro exI [of _ "time s"]) (simp add: clock_in_eq)
next
  case (Some cur)
  then have "time s \<noteq> []"
  by (simp add: current_entry_def split: if_splits)
  then have "length (butlast (time s) @ [cur\<lparr>end_dt := Some (fst (or_now clk t n))\<rparr>]) = length (time s)"
    by (cases "time s" rule: rev_cases) simp_all
  with Some show ?thesis
    by (intro exI [of _ "butlast (time s) @ [cur\<lparr>end_dt := Some (fst (or_now clk t n))\<rparr>]"])
       (simp add: clock_in_eq)
qed

lemma od_pop_cases:
  "od_pop k d = (if od_mem k d then Inr (the (map_of d k), filter (\<lambda>kv. fst kv \<noteq> k) d) else Inl KeyError)"
  by (auto simp: od_pop_def od_mem_def split: option.splits)

lemma complete_task_eq:
  "(\<not> od_mem nm (todo s) \<longrightarrow>
      complete_task clk nm t (s, n) = (Inl (TymeError ''No such task.''), (s, n)))
   \<and> (od_mem nm (todo s) \<longrightarrow>
      complete_task clk nm t (s, n) =
        (Inr (),
         (\<lparr>todo = filter (\<lambda>kv. fst kv \<noteq> nm) (todo s),
           time = (case current_entry s of
                     None \<Rightarrow> time s
                   | Some cur \<Rightarrow>
                       if task cur = nm
                       then butlast (time s) @ [cur\<lparr>end_dt := Some (fst (or_now clk t n))\<rparr>]
                       else time s),
           done_od = od_set nm ((the (map_of (todo s) nm))\<lparr>deadline := Some (fst (or_now clk t n))\<rparr>)
                       (done_od s)\<rparr>,
          snd (or_now clk t n))))"
  by (cases "or_now clk t n"; cases "current_entry s")
     (auto simp: complete_task_def od_pop_cases clock_out_def current_entry_def or_now_def
           split: if_splits)



text \<open>
  C8. When \<^verbatim>\<open>add_task\<close>, \<^verbatim>\<open>clock_out\<close> or \<^verbatim>\<open>complete_task\<close> raises, the sheet (and
  the clock) are what they were before the call; \<^verbatim>\<open>clock_in\<close> does not raise.
\<close>

theorem failed_operation_leaves_sheet:
  "(fst (add_task nm tgs dl s) = Inl e \<longrightarrow> snd (add_task nm tgs dl s) = s)
   \<and> (fst (clock_out clk t (s, n)) = Inl e \<longrightarrow> snd (clock_out clk t (s, n)) = (s, n))
   \<and> (fst (complete_task clk nm t (s, n)) = Inl e \<longrightarrow> snd (complete_task clk nm t (s, n)) = (s, n))
   \<and> fst (clock_in clk nm t (s, n)) \<noteq> Inl e"
proof -
  have a: "fst (add_task nm tgs dl s) = Inl e \<longrightarrow> snd (add_task nm tgs dl s) = s"
    by (simp add: add_task_def)
  have b: "fst (clock_out clk t (s, n)) = Inl e \<longrightarrow> snd (clock_out clk t (s, n)) = (s, n)"
    by (simp add: clock_out_def split: option.splits prod.splits)
  have c: "fst (complete_task clk nm t (s, n)) = Inl e \<longrightarrow> snd (complete_task clk nm t (s, n)) = (s, n)"
    using complete_task_eq [of nm s clk t n] by (cases "od_mem nm (todo s)") simp_all
  have d: "fst (clock_in clk nm t (s, n)) \<noteq> Inl e"
    by (simp add: clock_in_eq)
  from a b c d show ?thesis by blast
qed

text \<open>
  Witness for C8: the three failing calls.
\<close>

theorem failed_operation_leaves_sheet_witness:
  "fst (add_task ''write'' [] None sheet_working) = Inl (TymeError ''That task already exists.'')
   \<and> snd (add_task ''write'' [] None sheet_working) = sheet_working
   \<and> fst (clock_out (\<lambda>_. dt 1 1 0 0) None (sheet_todo_only, 0)) = Inl (TymeError ''Not clocked in.'')
   \<and> snd (clock_out (\<lambda>_. dt 1 1 0 0) None (sheet_todo_only, 0)) = (sheet_todo_only, 0)
   \<and> fst (complete_task (\<lambda>_. dt 1 1 0 0) ''sleep'' None (sheet_working, 0)) = Inl (TymeError ''No such task.'')
   \<and> snd (complete_task (\<lambda>_. dt 1 1 0 0) ''sleep'' None (sheet_working, 0)) = (sheet_working, 0)"
  using failed_operation_leaves_sheet [where nm = "''write''" and tgs = "[]" and dl = None
          and s = sheet_working and e = "TymeError ''That task already exists.''"]
        failed_operation_leaves_sheet [where s = sheet_todo_only and e = "TymeError ''Not clocked in.''"
          and clk = "\<lambda>_. dt 1 1 0 0" and t = None and n = 0]
        failed_operation_leaves_sheet [where s = sheet_working and e = "TymeError ''No such task.''"
          and clk = "\<lambda>_. dt 1 1 0 0" and t = None and n = 0 and nm = "''sleep''"]
  by (simp add: add_task_def clock_out_def complete_task_def od_pop_def od_mem_def current_entry_def
        sheet_working_def sheet_todo_only_def)

text \<open>
  C3. The time log of \<open>sheet_open\<close> satisfies the invariant (its one entry is open).
  Clocking out at 09:00, before the entry's start at 10:00, returns normally and
  leaves an entry whose end precedes its start, which \<^verbatim>\<open>Entry.__init__\<close> refuses to
  build: the invariant is not preserved by \<^verbatim>\<open>clock_out\<close>.
\<close>

theorem clock_out_before_start:
  "ends_ok sheet_open
   \<and> clock_out (\<lambda>_. dt 1 1 0 0) (Some (dt 10 10 9 0)) (sheet_open, 0) =
       (Inr ''foo'',
        (sheet_open\<lparr>time := [\<lparr>task = ''foo'', start = dt 10 10 10 0, end_dt = Some (dt 10 10 9 0)\<rparr>]\<rparr>, 0))
   \<and> \<not> ends_ok (fst (snd (clock_out (\<lambda>_. dt 1 1 0 0) (Some (dt 10 10 9 0)) (sheet_open, 0))))
   \<and> Entry_init ''foo'' (dt 10 10 10 0) (Some (dt 10 10 9 0)) =
       Inl (TymeError ''Entry cannot end before it begins!'')"
  by (simp add: ends_ok_def entry_ok_def clock_out_def current_entry_def or_now_def sheet_open_def
        Entry_init_def dt_less_def dt_tuple_def dt_def)

lemma validate_entries_iff:
  "validate_entries ts = (if \<forall>e \<in> set ts. end_dt e \<noteq> None then Inr ()
                          else Inl (ParseError ''Unfinished nonfinal entry''))"
  by (induction ts) auto







section \<open>The matcher\<close>





















section \<open>Task names\<close>









lemma not_word_blank [simp]: "\<not> is_word CHR '' ''"
  by (simp add: is_word_def code_point_def)








section \<open>Digits and \<^verbatim>\<open>strptime\<close>\<close>

lemma code_point_digit_char: "k < 10 \<Longrightarrow> code_point (digit_char k) = 48 + k"
  by (simp add: code_point_def digit_char_def)

lemma char_eq_code_point: "(a = b) = (code_point a = code_point b)"
  by (auto simp: code_point_def)


lemma is_word_digit_char: "k < 10 \<Longrightarrow> is_word (digit_char k)"
  by (simp add: is_word_def code_point_digit_char)

lemma not_space_digit_char: "k < 10 \<Longrightarrow> \<not> is_space (digit_char k)"
  by (simp add: is_space_def code_point_digit_char)


lemma digit_char_0: "digit_char 0 = CHR ''0''"
  using code_point_digit_char [of 0]
  by (simp add: char_eq_code_point [of "digit_char 0"] code_point_def)

lemma dec_small: "n < 10 \<Longrightarrow> dec n = [digit_char n]"
  by (simp add: dec.simps)

lemma pad2_digits: "n < 100 \<Longrightarrow> pad2 n = [digit_char (n div 10), digit_char (n mod 10)]"
proof (cases "n < 10")
  case True
  then show ?thesis by (simp add: pad2_def dec_small digit_char_0)
next
  case False
  assume "n < 100"
  then have "n div 10 < 10" by simp
  with False show ?thesis by (simp add: pad2_def dec.simps [of n] dec_small)
qed









lemma code_point_simps [simp]:
  "code_point CHR ''0'' = 48" "code_point CHR ''1'' = 49" "code_point CHR ''2'' = 50"
  "code_point CHR ''3'' = 51" "code_point CHR ''5'' = 53" "code_point CHR ''9'' = 57"
  "code_point CHR '' '' = 32" "code_point CHR ''-'' = 45" "code_point CHR '':'' = 58"
  "code_point CHR ''('' = 40" "code_point CHR '')'' = 41" "code_point CHR '','' = 44"
  "code_point (CHR 0x0A) = 10" "code_point (CHR 0x0D) = 13"
  by (simp_all add: code_point_def)











lemma is_space_blank [simp]: "is_space CHR '' ''"
  by (simp add: is_space_def)


lemma hd_pad2_not_space: "n < 100 \<Longrightarrow> \<not> is_space (hd (pad2 n @ s))"
  by (simp add: pad2_digits not_space_digit_char)


section \<open>Times and durations in a line\<close>






lemma not_digit_simps [simp]:
  "\<not> is_digit CHR ''-''" "\<not> is_digit CHR '' ''" "\<not> is_digit CHR '':''"
  by (simp_all add: is_digit_def)






section \<open>Tags\<close>



text \<open>Splitting what was joined.\<close>

lemma not_word_comma [simp]: "\<not> is_word CHR '',''"
  by (simp add: is_word_def)






section \<open>Entry lines\<close>


lemma digit_not_space: "is_digit c \<Longrightarrow> \<not> is_space c"
  by (auto simp: is_digit_def is_space_def Let_def)


lemma list_all_space_replicate [simp]: "list_all is_space (replicate k CHR '' '')"
  by (simp add: list_all_iff)








section \<open>Task lines\<close>






lemma tag_class [simp]:
  "cls_match (AnyOf [Word, Lit CHR '' '', Lit CHR '','']) c
     = (is_word c \<or> c = CHR '' '' \<or> c = CHR '','')"
  by auto

lemma newline_class [simp]:
  "\<not> is_word (CHR 0x0A)" "CHR 0x0A \<noteq> CHR '' ''" "CHR 0x0A \<noteq> CHR '',''" "CHR 0x0A \<noteq> CHR ''-''"
  "is_space (CHR 0x0A)"
  by (simp_all add: is_word_def is_space_def)



lemma not_word_dash [simp]: "\<not> is_word CHR ''-''"
  by (simp add: is_word_def)






section \<open>The lines of a file\<close>






lemma one_line_Nil [simp]: "one_line []"
  by (simp add: one_line_def)

lemma one_line_append [simp]: "one_line (a @ b) = (one_line a \<and> one_line b)"
  by (auto simp: one_line_def)

lemma one_line_Cons [simp]: "one_line (c # s) = (c \<noteq> CHR 0x0A \<and> c \<noteq> CHR 0x0D \<and> one_line s)"
  by (auto simp: one_line_def)

lemma one_line_replicate [simp]: "c \<noteq> CHR 0x0A \<Longrightarrow> c \<noteq> CHR 0x0D \<Longrightarrow> one_line (replicate k c)"
  by (auto simp: one_line_def)





















section \<open>Writing a sheet and reading it back\<close>



lemma validate_closed:
  "\<forall>e \<in> set (butlast tm). end_dt e \<noteq> None \<Longrightarrow>
   validate \<lparr>todo = td, time = tm, done_od = dn\<rparr> = Inr ()"
  by (simp add: validate_def validate_entries_iff)





section \<open>Round trip and validation\<close>






end
